theory Spec2Isabelle
  imports Main "HOL-Library.Word" "HOL-Library.Sublist"
begin

section \<open>Shared vocabulary\<close>

text \<open>
  A Go \<^verbatim>\<open>error\<close> value is modelled as \<open>error option\<close>: \<open>None\<close> is \<^verbatim>\<open>nil\<close>.
  \<open>ExtError\<close> stands for an error made by a library (regexp, encoding/json, net/http);
  \<open>CompileError p e\<close> is the value built in \<^verbatim>\<open>WithTargets\<close> by
  \<^verbatim>\<open>fmt.Errorf("cannot compile patter: %q: %v", t.IMEIPattern, err)\<close>.
\<close>

datatype error = ExtError string | CompileError string error

text \<open>
  What a call can do to its caller: return a value, wait on a channel operation for which
  no goroutine is ready in the state at hand (for ever, when none ever gets ready), or
  raise a run-time panic.
\<close>

datatype 'a outcome = Returns 'a | Blocks | Panics

section \<open>Package mux: the distributor\<close>

text \<open>\<^verbatim>\<open>http.Client{Transport: &http.Transport{TLSClientConfig: &tls.Config{InsecureSkipVerify: b}}}\<close>\<close>

datatype client = Client bool

text \<open>
  The struct \<^verbatim>\<open>Target\<close>. The two private fields are pointers, \<^verbatim>\<open>nil\<close> until
  \<^verbatim>\<open>WithTargets\<close> fills them. The Go map \<^verbatim>\<open>Header\<close> is an association list here.
\<close>

record 're Target =
  ID :: string
  IMEIPattern :: string
  Backend :: string
  SkipTLS :: bool
  Header :: "(string \<times> string) list"
  imeipattern :: "'re option"
  client :: "client option"

record request =
  Method :: string
  URL :: string
  ReqHeader :: "(string \<times> string) list"
  Body :: string

record response =
  StatusCode :: int
  Status :: string
  Content :: string

text \<open>
  The libraries and the network, as parameters of the model. \<open>'m\<close> is
  \<^verbatim>\<open>sbd.InformationBucket\<close>, \<open>'re\<close> is \<^verbatim>\<open>regexp.Regexp\<close>; neither type is declared in the
  files at hand.
  \<^item> \<open>Marshal\<close>: \<^verbatim>\<open>json.Marshal\<close> on a message;
  \<^item> \<open>GetIMEI\<close>: \<^verbatim>\<open>m.data.Header.GetIMEI()\<close>;
  \<^item> \<open>Compile\<close>, \<open>MatchString\<close>: \<^verbatim>\<open>regexp.Compile\<close>, \<^verbatim>\<open>(*Regexp).MatchString\<close>;
  \<^item> \<open>ParseURL\<close>: the reason why \<^verbatim>\<open>http.NewRequest\<close> rejects a URL, if it does;
  \<^item> \<open>Do\<close>: what \<^verbatim>\<open>t.client.Do(rq)\<close> gives for the table entry at the given position
    during the dispatch looked at: a transport error or a response.
\<close>

record ('m, 're) env =
  Marshal :: "'m \<Rightarrow> error + string"
  GetIMEI :: "'m \<Rightarrow> string"
  Compile :: "string \<Rightarrow> error + 're"
  MatchString :: "'re \<Rightarrow> string \<Rightarrow> bool"
  ParseURL :: "string \<Rightarrow> error option"
  Do :: "nat \<Rightarrow> client \<Rightarrow> request \<Rightarrow> error + response"

text \<open>\<^verbatim>\<open>http.NewRequest(method, url, body)\<close>: a request with no header yet, or an error.\<close>

definition NewRequest :: "('m, 're) env \<Rightarrow> string \<Rightarrow> string \<Rightarrow> string \<Rightarrow> error + request" where
  "NewRequest env method url body =
     (case ParseURL env url of
        Some err \<Rightarrow> Inl err
      | None \<Rightarrow> Inr \<lparr>Method = method, URL = url, ReqHeader = [], Body = body\<rparr>)"

text \<open>\<^verbatim>\<open>rq.Header.Add(k, v)\<close>\<close>

definition Header_Add :: "request \<Rightarrow> string \<Rightarrow> string \<Rightarrow> request" where
  "Header_Add rq k v = rq\<lparr>ReqHeader := ReqHeader rq @ [(k, v)]\<rparr>"

text \<open>
  The struct \<^verbatim>\<open>distributer\<close> and the \<^verbatim>\<open>run\<close> goroutines that work on it. Of each of the
  two unbuffered channels the model keeps whether it has been closed. \<open>workers\<close> is the
  number of \<^verbatim>\<open>run\<close> goroutines that wait in their \<^verbatim>\<open>select\<close>. \<open>cfg\<close> holds the variables
  \<^verbatim>\<open>cfg\<close> of the other \<^verbatim>\<open>run\<close> goroutines: each has taken a table from \<^verbatim>\<open>configChannel\<close>
  and has not yet assigned it to \<^verbatim>\<open>f.targets\<close>.
\<close>

record 're distributer =
  targets :: "'re Target list"
  sbdChannel_closed :: bool
  configChannel_closed :: bool
  workers :: nat
  cfg :: "'re Target list list"

text \<open>
  What the goroutine \<^verbatim>\<open>handle\<close> does that another goroutine can see: an HTTP request sent
  by the client of the table entry at a position, a value sent on \<^verbatim>\<open>m.returnedError\<close>, or
  the dereference of a \<^verbatim>\<open>nil\<close> \<^verbatim>\<open>t.imeipattern\<close> or \<^verbatim>\<open>t.client\<close>, which panics.
\<close>

datatype event = Request nat request | Send "error option" | NilDeref

definition New :: "int \<Rightarrow> 're distributer" where
  "New numworkers =
     \<lparr>targets = [], sbdChannel_closed = False, configChannel_closed = False,
      workers = nat numworkers, cfg = []\<rparr>"


text \<open>The loop of \<^verbatim>\<open>WithTargets\<close>, with its accumulator \<^verbatim>\<open>ar\<close>.\<close>

fun compile_loop :: "('m, 're) env \<Rightarrow> 're Target list \<Rightarrow> 're Target list \<Rightarrow> error + 're Target list" where
  "compile_loop env [] ar = Inr ar"
| "compile_loop env (t # ts) ar =
     (case Compile env (IMEIPattern t) of
        Inl err \<Rightarrow> Inl (CompileError (IMEIPattern t) err)
      | Inr p \<Rightarrow>
          compile_loop env ts
            (ar @ [t\<lparr>imeipattern := Some p, client := Some (Client (SkipTLS t))\<rparr>]))"

text \<open>
  \<^verbatim>\<open>WithTargets\<close>. Its last step is the send \<^verbatim>\<open>f.configChannel <- ar\<close>: on a closed
  channel it panics, and it waits as long as no \<^verbatim>\<open>run\<close> goroutine is in its \<^verbatim>\<open>select\<close>.
  When the call returns \<^verbatim>\<open>nil\<close>, a \<^verbatim>\<open>run\<close> goroutine has taken the table into its variable
  \<^verbatim>\<open>cfg\<close>; \<^verbatim>\<open>f.targets\<close> is not touched by the call.
\<close>

definition WithTargets ::
  "('m, 're) env \<Rightarrow> 're distributer \<Rightarrow> 're Target list \<Rightarrow> error option outcome \<times> 're distributer" where
  "WithTargets env f ts =
     (case compile_loop env ts [] of
        Inl err \<Rightarrow> (Returns (Some err), f)
      | Inr ar \<Rightarrow>
          if configChannel_closed f then (Panics, f)
          else if workers f = 0 then (Blocks, f)
          else (Returns None, f\<lparr>workers := workers f - 1, cfg := cfg f @ [ar]\<rparr>))"

text \<open>
  The rest of the first branch of the \<^verbatim>\<open>select\<close> in \<^verbatim>\<open>run\<close>, for the goroutine whose table
  is at position \<open>k\<close> of \<open>cfg\<close>: it logs, assigns \<^verbatim>\<open>f.targets = cfg\<close> and is back in its
  \<^verbatim>\<open>select\<close>. Nothing orders this step against the caller of \<^verbatim>\<open>WithTargets\<close>, who has
  returned, or against the other goroutines.
\<close>

definition run_config :: "nat \<Rightarrow> 're distributer \<Rightarrow> 're distributer" where
  "run_config k f =
     (if k < length (cfg f)
      then f\<lparr>targets := cfg f ! k, cfg := take k (cfg f) @ drop (Suc k) (cfg f),
             workers := Suc (workers f)\<rparr>
      else f)"

text \<open>
  \<^verbatim>\<open>Close\<close>: \<^verbatim>\<open>close(f.configChannel); close(f.sbdChannel)\<close>. Closing a closed channel
  panics.
\<close>

definition Close :: "'re distributer \<Rightarrow> unit outcome \<times> 're distributer" where
  "Close f =
     (if configChannel_closed f then (Panics, f)
      else if sbdChannel_closed f then (Panics, f\<lparr>configChannel_closed := True\<rparr>)
      else (Returns (), f\<lparr>configChannel_closed := True, sbdChannel_closed := True\<rparr>))"

text \<open>
  The \<^verbatim>\<open>for _, t := range f.targets\<close> loop of \<^verbatim>\<open>handle\<close>, over the table paired with its
  positions, and the final \<^verbatim>\<open>m.returnedError <- nil\<close>. In the branch of a response whose
  status is not 2xx the Go variable \<^verbatim>\<open>err\<close> is the one that \<^verbatim>\<open>t.client.Do\<close> returned and
  that was just tested to be \<^verbatim>\<open>nil\<close>. Go's division of integers truncates and \<open>div\<close>
  rounds down; the quotient by 100 is 2 for the same status codes, 200 to 299.
\<close>

fun range_targets :: "('m, 're) env \<Rightarrow> string \<Rightarrow> string \<Rightarrow> (nat \<times> 're Target) list \<Rightarrow> event list" where
  "range_targets env js imei [] = [Send None]"
| "range_targets env js imei ((i, t) # ts) =
     (case imeipattern t of
        None \<Rightarrow> [NilDeref]
      | Some p \<Rightarrow>
          if MatchString env p imei then
            (case NewRequest env ''POST'' (Backend t) js of
               Inl err \<Rightarrow> [Send (Some err)]
             | Inr rq0 \<Rightarrow>
                 let rq = fold (\<lambda>(k, v) r. Header_Add r k v) (Header t)
                            (Header_Add rq0 ''Content-Type'' ''application/json'')
                 in (case client t of
                       None \<Rightarrow> [NilDeref]
                     | Some c \<Rightarrow>
                         (case Do env i c rq of
                            Inl err \<Rightarrow> [Request i rq, Send (Some err)]
                          | Inr rsp \<Rightarrow>
                              let err = None in
                              if StatusCode rsp div 100 = 2
                              then Request i rq # range_targets env js imei ts
                              else [Request i rq, Send err])))
          else range_targets env js imei ts)"

definition handle :: "('m, 're) env \<Rightarrow> 're distributer \<Rightarrow> 'm \<Rightarrow> event list" where
  "handle env f data =
     (case Marshal env data of
        Inl err \<Rightarrow> [Send (Some err)]
      | Inr js \<Rightarrow> range_targets env js (GetIMEI env data) (enumerate 0 (targets f)))"

text \<open>
  \<^verbatim>\<open>rerr := <-msg.returnedError\<close>: the first value sent; if the goroutine ends without a
  send the receive never returns, and a panic in it ends the process.
\<close>

fun receive :: "event list \<Rightarrow> error option outcome" where
  "receive [] = Blocks"
| "receive (Send r # es) = Returns r"
| "receive (NilDeref # es) = Panics"
| "receive (Request i rq # es) = receive es"

text \<open>
  \<^verbatim>\<open>distribute\<close>: the send on \<^verbatim>\<open>sbdChannel\<close>, the \<^verbatim>\<open>handle\<close> goroutine that a \<^verbatim>\<open>run\<close>
  goroutine spawns for the message before it is back in its \<^verbatim>\<open>select\<close>, and the receive
  of its result. The goroutine reads \<^verbatim>\<open>f.targets\<close> once, in the state at hand. The second
  component is what \<^verbatim>\<open>handle\<close> did.
\<close>

definition distribute ::
  "('m, 're) env \<Rightarrow> 're distributer \<Rightarrow> 'm \<Rightarrow> error option outcome \<times> event list" where
  "distribute env f data =
     (if sbdChannel_closed f then (Panics, [])
      else if workers f = 0 then (Blocks, [])
      else let tr = handle env f data in (receive tr, tr))"

definition Handle ::
  "('m, 're) env \<Rightarrow> 're distributer \<Rightarrow> 'm \<Rightarrow> error option outcome \<times> event list" where
  "Handle env f data = distribute env f data"

section \<open>Package sbd: the confirmation and the connection\<close>

text \<open>
  Modelled from the spec: the structs \<^verbatim>\<open>MessageHeader\<close>, \<^verbatim>\<open>Header\<close> and
  \<^verbatim>\<open>MOConfirmationMessage\<close> are declared in a file of the package that is not at hand.
  The wire format has a one-byte revision and a big-endian unsigned length, each element
  a one-byte kind and a big-endian length, the confirmation a single status byte; the
  lengths are taken two bytes wide. The constants \<^verbatim>\<open>protocolRevision\<close> and
  \<^verbatim>\<open>moConfirmationID\<close> are parameters.
\<close>

record MessageHeader =
  ProtocolRevision :: "8 word"
  MessageLength :: "16 word"

record ElementHeader =
  ElementID :: "8 word"
  ElementLength :: "16 word"

record MOConfirmationMessage =
  Status :: "8 word"

record result =
  result_MessageHeader :: MessageHeader
  result_Header :: ElementHeader
  result_MOConfirmationMessage :: MOConfirmationMessage

definition createResult :: "8 word \<Rightarrow> 8 word \<Rightarrow> 8 word \<Rightarrow> result" where
  "createResult protocolRevision moConfirmationID status =
     \<lparr>result_MessageHeader = \<lparr>ProtocolRevision = protocolRevision, MessageLength = 4\<rparr>,
      result_Header = \<lparr>ElementID = moConfirmationID, ElementLength = 1\<rparr>,
      result_MOConfirmationMessage = \<lparr>Status = status\<rparr>\<rparr>"

text \<open>\<^verbatim>\<open>binary.Write(c, binary.BigEndian, res)\<close>: the fields in order, high byte first.\<close>

definition BigEndian_uint16 :: "16 word \<Rightarrow> 8 word list" where
  "BigEndian_uint16 w = [ucast (drop_bit 8 w), ucast w]"

definition encode_element :: "result \<Rightarrow> 8 word list" where
  "encode_element res =
     ElementID (result_Header res) # BigEndian_uint16 (ElementLength (result_Header res))
       @ [Status (result_MOConfirmationMessage res)]"

definition binary_Write :: "result \<Rightarrow> 8 word list" where
  "binary_Write res =
     ProtocolRevision (result_MessageHeader res)
       # BigEndian_uint16 (MessageLength (result_MessageHeader res))
       @ encode_element res"

text \<open>
  The goroutine that \<^verbatim>\<open>NewService\<close> starts for an accepted connection \<open>c\<close>, as the list
  of the calls of the handler and of the writes of a confirmation it makes. \<open>GetElements\<close>
  is the decoder, declared in a file that is not at hand. A handler that blocks or panics
  leaves the goroutine before its write. Logging, the deadline and the deferred close of
  the connection are left out.
\<close>

datatype 'm conn_event = HandleCall 'm | Write result

definition serve ::
  "8 word \<Rightarrow> 8 word \<Rightarrow> ('c \<Rightarrow> error + 'm) \<Rightarrow> ('m \<Rightarrow> error option outcome) \<Rightarrow> 'c \<Rightarrow> 'm conn_event list" where
  "serve protocolRevision moConfirmationID GetElements h c =
     (let res = createResult protocolRevision moConfirmationID 0 in
      case GetElements c of
        Inl err \<Rightarrow> [Write res]
      | Inr el \<Rightarrow>
          (case h el of
             Returns err \<Rightarrow>
               if err \<noteq> None then [HandleCall el, Write res]
               else [HandleCall el,
                     Write (res\<lparr>result_MOConfirmationMessage :=
                                  (result_MOConfirmationMessage res)\<lparr>Status := 1\<rparr>\<rparr>)]
           | Blocks \<Rightarrow> [HandleCall el]
           | Panics \<Rightarrow> [HandleCall el]))"

text \<open>The middleware \<^verbatim>\<open>Logger\<close>: it marshals the message for the log before it calls on.\<close>

definition Logger ::
  "('m, 're) env \<Rightarrow> ('m \<Rightarrow> error option outcome) \<Rightarrow> 'm \<Rightarrow> error option outcome" where
  "Logger env next data =
     (case Marshal env data of
        Inl err \<Rightarrow> Returns (Some err)
      | Inr js \<Rightarrow> next data)"

section \<open>Notions used to state the properties\<close>

text \<open>The requests and the sent values of a run of \<^verbatim>\<open>handle\<close>, in order.\<close>

fun requests :: "event list \<Rightarrow> (nat \<times> request) list" where
  "requests [] = []"
| "requests (Request i rq # es) = (i, rq) # requests es"
| "requests (Send r # es) = requests es"
| "requests (NilDeref # es) = requests es"

fun sends :: "event list \<Rightarrow> error option list" where
  "sends [] = []"
| "sends (Send r # es) = r # sends es"
| "sends (Request i rq # es) = sends es"
| "sends (NilDeref # es) = sends es"

text \<open>The compiled pattern of a target matches the identifier.\<close>

definition matches :: "('m, 're) env \<Rightarrow> string \<Rightarrow> 're Target \<Rightarrow> bool" where
  "matches env imei t =
     (case imeipattern t of None \<Rightarrow> False | Some p \<Rightarrow> MatchString env p imei)"


text \<open>The request for a target: a POST of the body to its backend, with its headers.\<close>

definition request_for :: "'re Target \<Rightarrow> string \<Rightarrow> request" where
  "request_for t js =
     \<lparr>Method = ''POST'', URL = Backend t,
      ReqHeader = (''Content-Type'', ''application/json'') # Header t, Body = js\<rparr>"

text \<open>
  The target at position \<open>i\<close> takes the body: the request can be built, the call gives a
  response, and its status is in the 2xx class. A target fails when it does not.
\<close>

definition delivered :: "('m, 're) env \<Rightarrow> string \<Rightarrow> nat \<Rightarrow> 're Target \<Rightarrow> bool" where
  "delivered env js i t =
     (case (ParseURL env (Backend t), client t) of
        (None, Some c) \<Rightarrow>
          (case Do env i c (request_for t js) of
             Inl err \<Rightarrow> False
           | Inr rsp \<Rightarrow> StatusCode rsp div 100 = 2)
      | _ \<Rightarrow> False)"


text \<open>Every target of a table has its pattern compiled and its client built.\<close>

definition compiled :: "'re Target list \<Rightarrow> bool" where
  "compiled ts = (\<forall>t \<in> set ts. imeipattern t \<noteq> None \<and> client t \<noteq> None)"

text \<open>The states that the interface of a distributor and its \<^verbatim>\<open>run\<close> goroutines can produce.\<close>

inductive reachable :: "('m, 're) env \<Rightarrow> 're distributer \<Rightarrow> bool" for env :: "('m, 're) env" where
  reach_New: "reachable env (New n)"
| reach_WithTargets: "reachable env f \<Longrightarrow> reachable env (snd (WithTargets env f ts))"
| reach_run_config: "reachable env f \<Longrightarrow> reachable env (run_config k f)"
| reach_Close: "reachable env f \<Longrightarrow> reachable env (snd (Close f))"

section \<open>A small instance of the parameters\<close>

text \<open>
  Stand-ins for the libraries, to run the model on concrete inputs. A message is its
  device identifier; the message \<open>''?''\<close> cannot be serialised. A pattern \<open>p\<close> stands for
  the regular expression \<^verbatim>\<open>^p\<close>; the pattern \<open>''(''\<close> does not compile. Every URL parses.
  The answers of the backends are given per table position.
\<close>

definition stub_env :: "(nat \<Rightarrow> error + response) \<Rightarrow> (string, string) env" where
  "stub_env backend =
     \<lparr>Marshal = (\<lambda>m. if m = ''?'' then Inl (ExtError ''json: unsupported value'') else Inr m),
      GetIMEI = (\<lambda>m. m),
      Compile = (\<lambda>p. if p = ''('' then Inl (ExtError ''missing closing )'') else Inr p),
      MatchString = (\<lambda>p s. take (length p) s = p),
      ParseURL = (\<lambda>u. None),
      Do = (\<lambda>i c rq. backend i)\<rparr>"

definition status_response :: "int \<Rightarrow> error + response" where
  "status_response code = Inr \<lparr>StatusCode = code, Status = [], Content = []\<rparr>"

definition target_of :: "string \<Rightarrow> string \<Rightarrow> string Target" where
  "target_of pattern backend =
     \<lparr>ID = [], IMEIPattern = pattern, Backend = backend, SkipTLS = False, Header = [],
      imeipattern = None, client = None\<rparr>"

section \<open>The dispatch loop, step by step\<close>

lemma fold_Header_Add:
  "fold (\<lambda>(k, v) r. Header_Add r k v) hs rq = rq\<lparr>ReqHeader := ReqHeader rq @ hs\<rparr>"
  by (induction hs arbitrary: rq) (auto simp: Header_Add_def)

lemma built_request:
  assumes "NewRequest env ''POST'' (Backend t) js = Inr rq0"
  shows "fold (\<lambda>(k, v) r. Header_Add r k v) (Header t)
     (Header_Add rq0 ''Content-Type'' ''application/json'') = request_for t js"
proof -
  from assms have "rq0 = \<lparr>Method = ''POST'', URL = Backend t, ReqHeader = [], Body = js\<rparr>"
    by (simp add: NewRequest_def split: option.splits)
  then show ?thesis
    by (simp add: fold_Header_Add) (simp add: Header_Add_def request_for_def)
qed

lemma NewRequest_None:
  "ParseURL env (Backend t) = None \<Longrightarrow> \<exists>rq0. NewRequest env ''POST'' (Backend t) js = Inr rq0"
  by (simp add: NewRequest_def)

lemma NewRequest_Some:
  "ParseURL env (Backend t) = Some e \<Longrightarrow> NewRequest env ''POST'' (Backend t) js = Inl e"
  by (simp add: NewRequest_def)

lemma range_targets_step:
  "range_targets env js imei ((i, t) # ts) =
     (case imeipattern t of
        None \<Rightarrow> [NilDeref]
      | Some p \<Rightarrow>
          if MatchString env p imei then
            (case ParseURL env (Backend t) of
               Some err \<Rightarrow> [Send (Some err)]
             | None \<Rightarrow>
                 (case client t of
                    None \<Rightarrow> [NilDeref]
                  | Some c \<Rightarrow>
                      (case Do env i c (request_for t js) of
                         Inl err \<Rightarrow> [Request i (request_for t js), Send (Some err)]
                       | Inr rsp \<Rightarrow>
                           if StatusCode rsp div 100 = 2
                           then Request i (request_for t js) # range_targets env js imei ts
                           else [Request i (request_for t js), Send None])))
          else range_targets env js imei ts)"
proof (cases "ParseURL env (Backend t)")
  case (Some e)
  then show ?thesis by (simp add: NewRequest_Some split: option.splits)
next
  case None
  then obtain rq0 where rq0: "NewRequest env ''POST'' (Backend t) js = Inr rq0"
    using NewRequest_None by blast
  show ?thesis
    using None rq0 built_request [OF rq0] by (simp add: Let_def split: option.splits sum.splits)
qed


lemma range_targets_failed:
  "matches env imei t \<Longrightarrow> \<not> delivered env js i t \<Longrightarrow>
   range_targets env js imei ((i, t) # ts) = range_targets env js imei [(i, t)]"
  unfolding range_targets_step
  by (auto simp: matches_def delivered_def split: option.splits sum.splits)


lemma range_targets_non2xx:
  "imeipattern t = Some p \<Longrightarrow> MatchString env p imei \<Longrightarrow> ParseURL env (Backend t) = None \<Longrightarrow>
   client t = Some c \<Longrightarrow> Do env i c (request_for t js) = Inr rsp \<Longrightarrow> StatusCode rsp div 100 \<noteq> 2 \<Longrightarrow>
   range_targets env js imei ((i, t) # ts) = [Request i (request_for t js), Send None]"
  unfolding range_targets_step by simp

lemma range_targets_transport_error:
  "imeipattern t = Some p \<Longrightarrow> MatchString env p imei \<Longrightarrow> ParseURL env (Backend t) = None \<Longrightarrow>
   client t = Some c \<Longrightarrow> Do env i c (request_for t js) = Inl e \<Longrightarrow>
   range_targets env js imei ((i, t) # ts) = [Request i (request_for t js), Send (Some e)]"
  unfolding range_targets_step by simp

lemma requests_index:
  "(i, rq) \<in> set (requests (range_targets env js imei its)) \<Longrightarrow>
   \<exists>t. (i, t) \<in> set its \<and> rq = request_for t js"
proof (induction its)
  case Nil
  then show ?case by simp
next
  case (Cons it its)
  obtain j t where it: "it = (j, t)" by (cases it)
  show ?case
    using Cons unfolding it range_targets_step
    by (auto split: option.splits sum.splits if_splits)
qed

lemma one_send:
  "compiled (map snd its) \<Longrightarrow>
   \<exists>r. sends (range_targets env js imei its) = [r] \<and> last (range_targets env js imei its) = Send r"
proof (induction its)
  case Nil
  then show ?case by simp
next
  case (Cons it its)
  obtain j t where it: "it = (j, t)" by (cases it)
  from Cons.prems it obtain p c where pc: "imeipattern t = Some p" "client t = Some c"
    by (auto simp: compiled_def)
  from Cons.prems have "compiled (map snd its)" by (simp add: compiled_def)
  with Cons.IH obtain r where r: "sends (range_targets env js imei its) = [r]"
      "last (range_targets env js imei its) = Send r" by blast
  then have ne: "range_targets env js imei its \<noteq> []" by auto
  show ?case
    unfolding it range_targets_step
    using pc r ne by (auto split: sum.splits option.splits)
qed



lemma range_targets_truncate:
  assumes "matches env imei t" "\<not> delivered env js i t"
  shows "range_targets env js imei (pre @ (i, t) # post) = range_targets env js imei (pre @ [(i, t)])"
proof (induction pre)
  case Nil
  show ?case using range_targets_failed [OF assms] by simp
next
  case (Cons it pre)
  obtain j u where it: "it = (j, u)" by (cases it)
  show ?case
    unfolding it append_Cons range_targets_step Cons.IH by (rule refl)
qed

subsection \<open>The loop of WithTargets and the invariant of the table\<close>




lemma compile_loop_compiled:
  "compile_loop env ts ar = Inr ar' \<Longrightarrow> compiled ar \<Longrightarrow> compiled ar'"
proof (induction ts arbitrary: ar)
  case Nil
  then show ?case by simp
next
  case (Cons t ts)
  from Cons.prems(1) obtain p where p: "Compile env (IMEIPattern t) = Inr p"
    by (cases "Compile env (IMEIPattern t)") simp_all
  let ?u = "t\<lparr>imeipattern := Some p, client := Some (Client (SkipTLS t))\<rparr>"
  from Cons.prems(1) p have l: "compile_loop env ts (ar @ [?u]) = Inr ar'" by simp
  from Cons.prems(2) have "compiled (ar @ [?u])" by (simp add: compiled_def)
  with Cons.IH l show ?case by blast
qed

lemma compile_loop_start: "compile_loop env ts [] = Inr ar \<Longrightarrow> compiled ar"
  using compile_loop_compiled [of env ts "[]" ar] by (simp add: compiled_def)

lemma WithTargets_compiled:
  assumes "compiled (targets f)" "\<forall>ar \<in> set (cfg f). compiled ar"
  shows "compiled (targets (snd (WithTargets env f ts)))
       \<and> (\<forall>ar \<in> set (cfg (snd (WithTargets env f ts))). compiled ar)"
proof (cases "compile_loop env ts []")
  case (Inl e)
  with assms show ?thesis by (simp add: WithTargets_def)
next
  case (Inr ar)
  then have "compiled ar" by (rule compile_loop_start)
  with Inr assms show ?thesis by (simp add: WithTargets_def)
qed

lemma run_config_compiled:
  assumes "compiled (targets f)" "\<forall>ar \<in> set (cfg f). compiled ar"
  shows "compiled (targets (run_config k f)) \<and> (\<forall>ar \<in> set (cfg (run_config k f)). compiled ar)"
proof (cases "k < length (cfg f)")
  case True
  then have "cfg f ! k \<in> set (cfg f)" by simp
  with assms(2) have 1: "compiled (cfg f ! k)" by blast
  have "set (take k (cfg f) @ drop (Suc k) (cfg f)) \<subseteq> set (cfg f)"
    using set_take_subset [of k "cfg f"] set_drop_subset [of "Suc k" "cfg f"] by auto
  with assms(2) have "\<forall>ar \<in> set (take k (cfg f) @ drop (Suc k) (cfg f)). compiled ar" by blast
  with True 1 show ?thesis by (simp add: run_config_def)
next
  case False
  with assms show ?thesis by (simp add: run_config_def)
qed

lemma reachable_invariant:
  "reachable env f \<Longrightarrow> compiled (targets f) \<and> (\<forall>ar \<in> set (cfg f). compiled ar)"
proof (induction rule: reachable.induct)
  case (reach_New n)
  show ?case by (simp add: New_def compiled_def)
next
  case (reach_WithTargets f ts)
  then show ?case using WithTargets_compiled by blast
next
  case (reach_run_config f k)
  then show ?case using run_config_compiled by blast
next
  case (reach_Close f)
  then show ?case by (simp add: Close_def)
qed

lemma reachable_compiled: "reachable env f \<Longrightarrow> compiled (targets f)"
  using reachable_invariant by blast

lemma no_NilDeref:
  "compiled (map snd its) \<Longrightarrow> NilDeref \<notin> set (range_targets env js imei its)"
proof (induction its)
  case Nil
  then show ?case by simp
next
  case (Cons it its)
  obtain j t where it: "it = (j, t)" by (cases it)
  from Cons.prems it obtain p c where pc: "imeipattern t = Some p" "client t = Some c"
    by (auto simp: compiled_def)
  from Cons.prems have "compiled (map snd its)" by (simp add: compiled_def)
  with Cons.IH have "NilDeref \<notin> set (range_targets env js imei its)" by blast
  then show ?case
    unfolding it range_targets_step
    using pc by (auto split: sum.splits option.splits)
qed

lemma receive_first_send:
  "NilDeref \<notin> set tr \<Longrightarrow> sends tr = r # rs \<Longrightarrow> receive tr = Returns r"
  by (induction tr rule: receive.induct) auto

lemma map_snd_enumerate: "map snd (enumerate n xs) = xs"
  by (induction xs arbitrary: n) auto




subsection \<open>The small instance\<close>

lemma stub_table:
  assumes "p1 \<noteq> ''(''" "p2 \<noteq> ''(''"
  shows "run_config 0 (snd (WithTargets (stub_env b) (New 5) [target_of p1 u1, target_of p2 u2]))
   = \<lparr>targets = [(target_of p1 u1)\<lparr>imeipattern := Some p1, client := Some (Client False)\<rparr>,
                 (target_of p2 u2)\<lparr>imeipattern := Some p2, client := Some (Client False)\<rparr>],
      sbdChannel_closed = False, configChannel_closed = False, workers = 5, cfg = []\<rparr>"
  using assms by (simp add: run_config_def WithTargets_def New_def stub_env_def target_of_def)

section \<open>The properties\<close>

text \<open>
  C7. For every status byte the confirmation that \<^verbatim>\<open>createResult\<close> builds declares a message
  length of 4 and an element length of 1 and carries the status byte as given. Written to
  the wire it is the revision byte, the length 4, and then the one confirmation element:
  its kind, the length 1 and the status byte, which are the 4 bytes that the message
  length declares. The function is total.
\<close>

theorem createResult_confirmation:
  "MessageLength (result_MessageHeader (createResult pr mc status)) = 4
   \<and> ElementLength (result_Header (createResult pr mc status)) = 1
   \<and> Status (result_MOConfirmationMessage (createResult pr mc status)) = status
   \<and> binary_Write (createResult pr mc status) = [pr, 0, 4, mc, 0, 1, status]
   \<and> encode_element (createResult pr mc status) = [mc, 0, 1, status]
   \<and> length (encode_element (createResult pr mc status))
       = unat (MessageLength (result_MessageHeader (createResult pr mc status)))
   \<and> unat (ElementLength (result_Header (createResult pr mc status))) = length [status]"
  by (simp add: createResult_def binary_Write_def encode_element_def BigEndian_uint16_def)

text \<open>
  C5. A connection gets one write of a confirmation. When the decoder fails, the handler
  is not called and the status byte is 0. When the decoder succeeds and the handler returns
  \<^verbatim>\<open>nil\<close>, the status byte is 1. When the handler returns an error, the status byte is 0,
  and nothing else of the error reaches the device.
\<close>

theorem serve_confirmation:
  "(GetElements c = Inl e \<longrightarrow>
      serve pr mc GetElements h c = [Write (createResult pr mc 0)])
   \<and> (GetElements c = Inr el \<longrightarrow> h el = Returns None \<longrightarrow>
      serve pr mc GetElements h c = [HandleCall el, Write (createResult pr mc 1)])
   \<and> (GetElements c = Inr el \<longrightarrow> h el = Returns (Some e') \<longrightarrow>
      serve pr mc GetElements h c = [HandleCall el, Write (createResult pr mc 0)])"
  by (simp add: serve_def createResult_def)

theorem serve_confirmation_witness:
  "serve 1 5 (\<lambda>c. if c = [] then Inl (ExtError ''EOF'') else Inr c)
       (\<lambda>el. if el = ''ok'' then Returns None else Returns (Some (ExtError ''no''))) []
     = [Write (createResult 1 5 0)]
   \<and> serve 1 5 (\<lambda>c. if c = [] then Inl (ExtError ''EOF'') else Inr c)
       (\<lambda>el. if el = ''ok'' then Returns None else Returns (Some (ExtError ''no''))) ''ok''
     = [HandleCall ''ok'', Write (createResult 1 5 1)]
   \<and> serve 1 5 (\<lambda>c. if c = [] then Inl (ExtError ''EOF'') else Inr c)
       (\<lambda>el. if el = ''ok'' then Returns None else Returns (Some (ExtError ''no''))) ''ko''
     = [HandleCall ''ko'', Write (createResult 1 5 0)]"
  using
    serve_confirmation [of "\<lambda>c. if c = [] then Inl (ExtError ''EOF'') else Inr c" "[]" "ExtError ''EOF''" 1 5
      "\<lambda>el. if el = ''ok'' then Returns None else Returns (Some (ExtError ''no''))"]
    serve_confirmation [of "\<lambda>c. if c = [] then Inl (ExtError ''EOF'') else Inr c" "''ok''" _ 1 5
      "\<lambda>el. if el = ''ok'' then Returns None else Returns (Some (ExtError ''no''))" "''ok''"]
    serve_confirmation [of "\<lambda>c. if c = [] then Inl (ExtError ''EOF'') else Inr c" "''ko''" _ 1 5
      "\<lambda>el. if el = ''ok'' then Returns None else Returns (Some (ExtError ''no''))" "''ko''" "ExtError ''no''"]
  by simp

text \<open>
  C1. \<^verbatim>\<open>Handle\<close> is to return the error of the first matching target that fails, and
  \<^verbatim>\<open>nil\<close> when every matching target succeeds or none matches. Here the only target of
  the table, set by \<^verbatim>\<open>WithTargets\<close> and assigned by its \<^verbatim>\<open>run\<close> goroutine, matches the
  identifier and its backend answers with status 500: the request is sent, the value sent
  back is \<^verbatim>\<open>nil\<close>, and \<^verbatim>\<open>Handle\<close> returns \<^verbatim>\<open>nil\<close>.
\<close>

theorem Handle_non2xx_returns_nil:
  "Handle (stub_env (\<lambda>i. status_response 500))
     (run_config 0 (snd (WithTargets (stub_env (\<lambda>i. status_response 500)) (New 5) [target_of ''300'' ''http://a/''])))
     ''3004340635''
   = (Returns None,
      [Request 0 \<lparr>Method = ''POST'', URL = ''http://a/'',
                  ReqHeader = [(''Content-Type'', ''application/json'')], Body = ''3004340635''\<rparr>,
       Send None])"
  by (simp add: Handle_def distribute_def handle_def run_config_def WithTargets_def New_def
      stub_env_def status_response_def target_of_def NewRequest_def Header_Add_def enumerate_eq_zip)




text \<open>
  C3. When a target of the table matches the identifier and fails (its request cannot be
  built, the call fails in the transport, or the status of the response is not 2xx), the
  dispatch of the message runs as if the table ended with this target: no request goes to
  a target at a later position, matching or not.
\<close>

theorem abort_skips_later_targets:
  assumes "targets f = pre @ t # post"
    and "Marshal env m = Inr js"
    and "matches env (GetIMEI env m) t"
    and "\<not> delivered env js (length pre) t"
  shows "handle env f m = handle env (f\<lparr>targets := pre @ [t]\<rparr>) m
       \<and> (\<forall>(i, rq) \<in> set (requests (handle env f m)). i \<le> length pre)"
proof -
  let ?imei = "GetIMEI env m"
  have e1: "enumerate 0 (pre @ t # post)
      = enumerate 0 pre @ (length pre, t) # enumerate (Suc (length pre)) post"
    by (simp add: enumerate_append_eq)
  have e2: "enumerate 0 (pre @ [t]) = enumerate 0 pre @ [(length pre, t)]"
    by (simp add: enumerate_append_eq)
  have tr: "range_targets env js ?imei (enumerate 0 (pre @ t # post))
      = range_targets env js ?imei (enumerate 0 (pre @ [t]))"
    unfolding e1 e2 using assms(3,4) by (rule range_targets_truncate)
  with assms(1,2) have h: "handle env f m = handle env (f\<lparr>targets := pre @ [t]\<rparr>) m"
    by (simp add: handle_def)
  have "i \<le> length pre" if "(i, rq) \<in> set (requests (handle env f m))" for i rq
  proof -
    from that assms(1,2) tr
    have "(i, rq) \<in> set (requests (range_targets env js ?imei (enumerate 0 (pre @ [t]))))"
      by (simp add: handle_def)
    then obtain u where "(i, u) \<in> set (enumerate 0 (pre @ [t]))"
      using requests_index by blast
    then show ?thesis by (auto simp: in_set_enumerate_eq)
  qed
  with h show ?thesis by blast
qed

theorem abort_skips_later_targets_witness:
  "handle (stub_env (\<lambda>i. status_response 503))
       (run_config 0 (snd (WithTargets (stub_env (\<lambda>i. status_response 503)) (New 5)
          [target_of ''300'' ''http://a/'', target_of ''3'' ''http://b/''])))
       ''3004340635''
     = [Request 0 \<lparr>Method = ''POST'', URL = ''http://a/'',
                    ReqHeader = [(''Content-Type'', ''application/json'')], Body = ''3004340635''\<rparr>,
        Send None]"
proof -
  let ?E = "stub_env (\<lambda>i. status_response 503)"
  let ?f = "run_config 0 (snd (WithTargets ?E (New 5) [target_of ''300'' ''http://a/'', target_of ''3'' ''http://b/'']))"
  let ?t = "(target_of ''300'' ''http://a/'')\<lparr>imeipattern := Some ''300'', client := Some (Client False)\<rparr>"
  let ?u = "(target_of ''3'' ''http://b/'')\<lparr>imeipattern := Some ''3'', client := Some (Client False)\<rparr>"
  have f: "?f = \<lparr>targets = [?t, ?u], sbdChannel_closed = False, configChannel_closed = False, workers = 5, cfg = []\<rparr>"
    by (rule stub_table) simp_all
  have 1: "targets ?f = [] @ ?t # [?u]" by (simp add: f)
  have 2: "Marshal ?E ''3004340635'' = Inr ''3004340635''" by (simp add: stub_env_def)
  have 3: "matches ?E (GetIMEI ?E ''3004340635'') ?t"
    by (simp add: matches_def stub_env_def target_of_def)
  have 4: "\<not> delivered ?E ''3004340635'' (length ([] :: string Target list)) ?t"
    by (simp add: delivered_def stub_env_def target_of_def status_response_def)
  from abort_skips_later_targets [OF 1 2 3 4]
  have a: "handle ?E ?f ''3004340635'' = handle ?E (?f\<lparr>targets := [] @ [?t]\<rparr>) ''3004340635''"
    by blast
  have "handle ?E (?f\<lparr>targets := [] @ [?t]\<rparr>) ''3004340635''
     = [Request 0 \<lparr>Method = ''POST'', URL = ''http://a/'',
                    ReqHeader = [(''Content-Type'', ''application/json'')], Body = ''3004340635''\<rparr>,
        Send None]"
    by (simp add: handle_def stub_env_def status_response_def target_of_def NewRequest_def
        Header_Add_def enumerate_eq_zip)
  with a show ?thesis by simp
qed



text \<open>
  C8. In every state that the interface can produce and for every message, the goroutine
  \<^verbatim>\<open>handle\<close> sends exactly one value on the result channel of the message, as the last
  thing it does; the caller of \<^verbatim>\<open>Handle\<close>, once its message has been taken, is released
  with this value.
\<close>

theorem handle_sends_exactly_once:
  assumes "reachable env f"
  shows "\<exists>r. sends (handle env f m) = [r] \<and> last (handle env f m) = Send r
           \<and> (\<not> sbdChannel_closed f \<longrightarrow> 0 < workers f \<longrightarrow> fst (Handle env f m) = Returns r)"
proof (cases "Marshal env m")
  case (Inl e)
  then have "handle env f m = [Send (Some e)]" by (simp add: handle_def)
  then show ?thesis by (simp add: Handle_def distribute_def)
next
  case (Inr js)
  let ?tr = "range_targets env js (GetIMEI env m) (enumerate 0 (targets f))"
  from Inr have h: "handle env f m = ?tr" by (simp add: handle_def)
  from assms have "compiled (targets f)" by (rule reachable_compiled)
  then have c: "compiled (map snd (enumerate 0 (targets f)))" by (simp add: map_snd_enumerate)
  from c obtain r where r: "sends ?tr = [r]" "last ?tr = Send r"
    using one_send by blast
  from c have "NilDeref \<notin> set ?tr" by (rule no_NilDeref)
  then have "receive ?tr = Returns r" using r(1) by (rule receive_first_send)
  with r h show ?thesis by (simp add: Handle_def distribute_def)
qed

theorem handle_sends_exactly_once_witness:
  "reachable (stub_env (\<lambda>i. status_response 200))
     (run_config 0 (snd (WithTargets (stub_env (\<lambda>i. status_response 200)) (New 5)
        [target_of ''300'' ''http://a/'', target_of ''999'' ''http://b/''])))
   \<and> sends (handle (stub_env (\<lambda>i. status_response 200))
       (run_config 0 (snd (WithTargets (stub_env (\<lambda>i. status_response 200)) (New 5)
          [target_of ''300'' ''http://a/'', target_of ''999'' ''http://b/''])))
       ''3004340635'') = [None]
   \<and> fst (Handle (stub_env (\<lambda>i. status_response 200))
       (run_config 0 (snd (WithTargets (stub_env (\<lambda>i. status_response 200)) (New 5)
          [target_of ''300'' ''http://a/'', target_of ''999'' ''http://b/''])))
       ''3004340635'') = Returns None"
proof -
  let ?E = "stub_env (\<lambda>i. status_response 200)"
  let ?f = "run_config 0 (snd (WithTargets ?E (New 5) [target_of ''300'' ''http://a/'', target_of ''999'' ''http://b/'']))"
  let ?t = "(target_of ''300'' ''http://a/'')\<lparr>imeipattern := Some ''300'', client := Some (Client False)\<rparr>"
  let ?u = "(target_of ''999'' ''http://b/'')\<lparr>imeipattern := Some ''999'', client := Some (Client False)\<rparr>"
  have f: "?f = \<lparr>targets = [?t, ?u], sbdChannel_closed = False, configChannel_closed = False, workers = 5, cfg = []\<rparr>"
    by (rule stub_table) simp_all
  have 1: "reachable ?E ?f" by (rule reach_run_config [OF reach_WithTargets [OF reach_New]])
  have live: "\<not> sbdChannel_closed ?f" "0 < workers ?f" by (simp_all add: f)
  from handle_sends_exactly_once [OF 1, of "''3004340635''"] live
  obtain r where r: "sends (handle ?E ?f ''3004340635'') = [r]"
      "last (handle ?E ?f ''3004340635'') = Send r"
      "fst (Handle ?E ?f ''3004340635'') = Returns r"
    by blast
  have "last (handle ?E ?f ''3004340635'') = Send None"
    unfolding f
    by (simp add: handle_def stub_env_def status_response_def target_of_def NewRequest_def
        Header_Add_def enumerate_eq_zip)
  with r have "r = None" by simp
  with r 1 show ?thesis by simp
qed

text \<open>
  C9, as the specification has it: a \<^verbatim>\<open>Handle\<close> after \<^verbatim>\<open>Close\<close> blocks for ever and
  raises no panic. It does not: after the \<^verbatim>\<open>Close\<close> of a fresh distributor of five
  workers the call panics.
\<close>

theorem Handle_after_Close_counterexample:
  "fst (Close (New 5 :: string distributer)) = Returns ()
   \<and> fst (Handle (stub_env (\<lambda>i. status_response 200)) (snd (Close (New 5))) ''3004340635'') = Panics
   \<and> fst (Handle (stub_env (\<lambda>i. status_response 200)) (snd (Close (New 5))) ''3004340635'') \<noteq> Blocks"
  by (simp add: Handle_def distribute_def Close_def New_def)

text \<open>
  C9, amended. A \<^verbatim>\<open>Handle\<close> after a \<^verbatim>\<open>Close\<close> that returned neither blocks nor returns
  an error: for every message its send on the closed channel panics, and no request is
  issued.
\<close>

theorem Handle_after_Close_panics:
  "fst (Close f) = Returns () \<Longrightarrow> Handle env (snd (Close f)) m = (Panics, [])"
  by (simp add: Handle_def distribute_def Close_def split: if_splits)

theorem Handle_after_Close_panics_witness:
  "fst (Close (New 5 :: string distributer)) = Returns ()
   \<and> Handle (stub_env (\<lambda>i. status_response 200)) (snd (Close (New 5))) ''3004340635'' = (Panics, [])"
proof -
  have c: "fst (Close (New 5 :: string distributer)) = Returns ()"
    by (simp add: Close_def New_def)
  from Handle_after_Close_panics [OF c] c show ?thesis by simp
qed

text \<open>
  C10. When the serialisation of the message fails, \<^verbatim>\<open>handle\<close> sends this error and does
  nothing else: no request is issued, whatever the table is, and \<^verbatim>\<open>Handle\<close>, on a running
  distributor, returns this error.
\<close>

theorem marshal_failure_is_returned:
  assumes "Marshal env m = Inl e"
  shows "handle env f m = [Send (Some e)]
     \<and> requests (snd (Handle env f m)) = []
     \<and> (\<not> sbdChannel_closed f \<longrightarrow> 0 < workers f \<longrightarrow>
          Handle env f m = (Returns (Some e), [Send (Some e)]))"
  using assms by (simp add: Handle_def distribute_def handle_def)

theorem marshal_failure_is_returned_witness:
  "Marshal (stub_env (\<lambda>i. status_response 200)) ''?'' = Inl (ExtError ''json: unsupported value'')
   \<and> Handle (stub_env (\<lambda>i. status_response 200))
       (run_config 0 (snd (WithTargets (stub_env (\<lambda>i. status_response 200)) (New 5)
          [target_of ''300'' ''http://a/'', target_of '''' ''http://b/''])))
       ''?''
     = (Returns (Some (ExtError ''json: unsupported value'')),
        [Send (Some (ExtError ''json: unsupported value''))])"
proof -
  let ?E = "stub_env (\<lambda>i. status_response 200)"
  let ?f = "run_config 0 (snd (WithTargets ?E (New 5) [target_of ''300'' ''http://a/'', target_of '''' ''http://b/'']))"
  have m: "Marshal ?E ''?'' = Inl (ExtError ''json: unsupported value'')"
    by (simp add: stub_env_def)
  have "?f = \<lparr>targets = [(target_of ''300'' ''http://a/'')\<lparr>imeipattern := Some ''300'', client := Some (Client False)\<rparr>,
                 (target_of '''' ''http://b/'')\<lparr>imeipattern := Some '''', client := Some (Client False)\<rparr>],
      sbdChannel_closed = False, configChannel_closed = False, workers = 5, cfg = []\<rparr>"
    by (rule stub_table) simp_all
  then have live: "\<not> sbdChannel_closed ?f" "0 < workers ?f" by simp_all
  from marshal_failure_is_returned [OF m, of ?f] live m show ?thesis by blast
qed

end
